theory Spec2Isabelle
  imports Main "HOL-Library.Sublist"
begin

section \<open>Data model of the site manifest (App.tsx, lines 4-37)\<close>

text \<open>
  JavaScript strings are modelled as \<open>string\<close>. A field declared with \<open>?\<close> in the
  TypeScript types is an \<open>option\<close>. The fields \<open>page_title\<close> and
  \<open>meta_description\<close> are declared \<open>string\<close>, but the JSON document may leave them
  out and the code tests both for truthiness, so they are options as well: \<open>None\<close> is
  the absent field (\<open>undefined\<close>).
\<close>

record ManifestNavLink =
  label :: string
  slug :: string

record ManifestFooter =
  footer_text :: "string option"
  links :: "ManifestNavLink list option"

record ManifestSection =
  type :: string
  heading :: "string option"
  body :: "string option"

record ManifestPage =
  page_slug :: string
  title :: string
  sections :: "ManifestSection list"

record Manifest =
  nav :: "ManifestNavLink list option option"
  footer :: "ManifestFooter option"
  pages :: "ManifestPage list"

record ManifestResponse =
  manifest_id :: int
  business_name :: string
  page_title :: "string option"
  meta_description :: "string option"
  cta :: "string option"
  manifest :: Manifest

section \<open>JavaScript truthiness of strings\<close>

text \<open>
  \<open>a || b\<close> on strings gives \<open>b\<close> exactly when \<open>a\<close> is the empty string; on a value
  that may be \<open>undefined\<close> it gives \<open>b\<close> when \<open>a\<close> is \<open>undefined\<close> or empty.
\<close>

definition truthy :: "string option \<Rightarrow> bool" where
  "truthy v = (case v of None \<Rightarrow> False | Some s \<Rightarrow> s \<noteq> [])"

definition or_else :: "string \<Rightarrow> string \<Rightarrow> string" where
  "or_else a b = (if a = [] then b else a)"

definition opt_or_else :: "string option \<Rightarrow> string \<Rightarrow> string" where
  "opt_or_else a b = (case a of None \<Rightarrow> b | Some s \<Rightarrow> or_else s b)"

section \<open>Path Router: slugToPath (App.tsx, lines 42-45)\<close>

text \<open>
  \<open>slug.replace(/^\//, '')\<close>: the pattern is anchored at the start and has no global
  flag, so one leading slash is removed when there is one and nothing else changes.
\<close>

definition replace_leading_slash :: "string \<Rightarrow> string" where
  "replace_leading_slash s =
     (case s of [] \<Rightarrow> [] | c # t \<Rightarrow> if c = CHR ''/'' then t else s)"

definition slugToPath :: "string \<Rightarrow> string" where
  "slugToPath s =
     (if s = [] \<or> s = ''/'' \<or> s = ''home'' then ''/''
      else CHR ''/'' # replace_leading_slash s)"

section \<open>Configuration and view state (App.tsx, lines 39-53)\<close>

text \<open>
  The two build-time settings are \<open>string | undefined\<close>.

  The cell \<open>data\<close> is declared \<open>ManifestResponse | null\<close> but receives whatever value the
  response body parses to, unchecked. The code distinguishes three kinds of value:
  \<^item> \<open>JsonFalsy\<close>: \<open>null\<close>, \<open>false\<close>, \<open>0\<close> or the empty string, the values for which
    \<open>!data\<close> holds; \<open>null\<close> is also the initial value of the cell;
  \<^item> \<open>JsonManifest d\<close>: an object of the declared shape;
  \<^item> \<open>JsonOther\<close>: any other value, such as \<open>{}\<close>, \<open>[]\<close>, \<open>true\<close> or \<open>5\<close>: it is
    truthy and has no \<open>manifest\<close> member, so \<open>data.manifest\<close> is \<open>undefined\<close>.

  The view state holds the four React state cells of \<open>App\<close> and, beside them, in
  \<open>history\<close>, the entries the view has added to the session history with
  \<open>window.history.pushState\<close>, oldest first, after those given at creation. Going back
  and forward is the browser's business: the view learns of it through \<open>popstate\<close> alone
  and the record is not touched by it. State setters are modelled as immediate updates.
\<close>

record Env =
  manifestUrl :: "string option"
  siteNameEnv :: "string option"

datatype JsonValue = JsonFalsy | JsonOther | JsonManifest ManifestResponse

record AppState =
  data :: JsonValue
  isLoading :: bool
  error :: "string option"
  currentPath :: string
  history :: "string list"

text \<open>
  \<open>useState(window.location.pathname || '/')\<close>; the arguments are the path name the
  browser reports when the view is created and the history entries recorded so far.
\<close>

definition initialState :: "string \<Rightarrow> string list \<Rightarrow> AppState" where
  "initialState pathname entries =
     \<lparr>data = JsonFalsy, isLoading = False, error = None,
      currentPath = or_else pathname ''/'', history = entries\<rparr>"

section \<open>Manifest Client (App.tsx, lines 55-73)\<close>

text \<open>
  What \<open>fetch\<close> followed by \<open>res.json()\<close> can deliver: the request itself is rejected,
  or a response arrives with a status code and a body that either does not parse as JSON
  (\<open>None\<close>, the promise of \<open>res.json()\<close> is rejected) or parses to some JSON value.
  The handler stores that value whatever it is; the status code is carried along and
  never read.
\<close>

datatype FetchResult = NetworkError | Response nat "JsonValue option"

definition failureMessage :: string where
  "failureMessage = ''Failed to load site configuration.''"

definition fetchStart :: "AppState \<Rightarrow> AppState" where
  "fetchStart st = st\<lparr>isLoading := True, error := None\<rparr>"

definition fetchSettle :: "FetchResult \<Rightarrow> AppState \<Rightarrow> AppState" where
  "fetchSettle r st =
     (let st' = (case r of
                   NetworkError \<Rightarrow> st\<lparr>error := Some failureMessage\<rparr>
                 | Response status parsed \<Rightarrow>
                     (case parsed of
                        None \<Rightarrow> st\<lparr>error := Some failureMessage\<rparr>
                      | Some json \<Rightarrow> st\<lparr>data := json\<rparr>))
      in st'\<lparr>isLoading := False\<rparr>)"

definition fetchEffect :: "Env \<Rightarrow> FetchResult \<Rightarrow> AppState \<Rightarrow> AppState" where
  "fetchEffect env r st =
     (if \<not> truthy (manifestUrl env) then st else fetchSettle r (fetchStart st))"

section \<open>Path Router: navigation (App.tsx, lines 75-82, 106-112, 177-180)\<close>

definition handlePopState :: "string \<Rightarrow> AppState \<Rightarrow> AppState" where
  \<comment> \<open>the argument is \<open>window.location.pathname\<close> as read when the event fires\<close>
  "handlePopState pathname st = st\<lparr>currentPath := or_else pathname ''/''\<rparr>"

text \<open>
  \<open>window.history.pushState({}, '', url)\<close> adds an entry for \<open>url\<close>, unless the browser
  refuses the URL: resolved against the document it must stay on the document's origin,
  and the call throws a \<open>SecurityError\<close> otherwise (as for \<open>//x\<close>, which names the host
  \<open>x\<close>). The browser's decision is not code of the view and is taken as the parameter
  \<open>sameOrigin\<close>.
\<close>

datatype DOMException = SecurityError

definition pushState :: "(string \<Rightarrow> bool) \<Rightarrow> string \<Rightarrow> string list \<Rightarrow> DOMException + string list"
  where
  "pushState sameOrigin url entries =
     (if sameOrigin url then Inr (entries @ [url]) else Inl SecurityError)"

text \<open>
  \<open>pushState\<close> is called before \<open>setCurrentPath\<close>: when it throws, the handler is left
  with the exception (\<open>Inl\<close>) and no state has been changed.
\<close>

definition handleNavigate :: "(string \<Rightarrow> bool) \<Rightarrow> string \<Rightarrow> AppState \<Rightarrow> DOMException + AppState"
  where
  "handleNavigate sameOrigin path st =
     (let normalized = or_else path ''/''
      in if normalized = currentPath st then Inr st
         else (case pushState sameOrigin normalized (history st) of
                 Inl e \<Rightarrow> Inl e
               | Inr entries \<Rightarrow> Inr (st\<lparr>history := entries, currentPath := normalized\<rparr>)))"

definition handleClick :: "(string \<Rightarrow> bool) \<Rightarrow> string \<Rightarrow> AppState \<Rightarrow> DOMException + AppState"
  where
  \<comment> \<open>\<open>Layout\<close> receives \<open>handleNavigate\<close> as \<open>onNavigate\<close>\<close>
  "handleClick sameOrigin s st = handleNavigate sameOrigin (slugToPath s) st"

definition afterHandler :: "AppState \<Rightarrow> DOMException + AppState \<Rightarrow> AppState" where
  \<comment> \<open>the state once an event handler has run: as before when it threw\<close>
  "afterHandler st r = (case r of Inl e \<Rightarrow> st | Inr st' \<Rightarrow> st')"

text \<open>
  The events that reach the view: the fetch started at mount settles, the site name is
  clicked (\<open>onNavigate('/')\<close>), a navigation or footer link with the given slug is
  clicked, the browser goes back or forward and reports the given path name.
\<close>

datatype Event =
  FetchSettled FetchResult
  | ClickSiteName
  | ClickNavLink string
  | ClickFooterLink string
  | PopState string

fun step :: "(string \<Rightarrow> bool) \<Rightarrow> Env \<Rightarrow> Event \<Rightarrow> AppState \<Rightarrow> AppState" where
  "step sameOrigin env (FetchSettled r) st = fetchEffect env r st"
| "step sameOrigin env ClickSiteName st = afterHandler st (handleNavigate sameOrigin ''/'' st)"
| "step sameOrigin env (ClickNavLink s) st = afterHandler st (handleClick sameOrigin s st)"
| "step sameOrigin env (ClickFooterLink s) st = afterHandler st (handleClick sameOrigin s st)"
| "step sameOrigin env (PopState pathname) st = handlePopState pathname st"

fun run :: "(string \<Rightarrow> bool) \<Rightarrow> Env \<Rightarrow> Event list \<Rightarrow> AppState \<Rightarrow> AppState" where
  "run sameOrigin env [] st = st"
| "run sameOrigin env (e # es) st = run sameOrigin env es (step sameOrigin env e st)"

text \<open>
  The path name of a hierarchical URL (http, https, file) is empty or begins with a
  slash; this is what the browser can report in \<open>window.location.pathname\<close> for a page
  that was served to it.
\<close>

definition locationPathname :: "string \<Rightarrow> bool" where
  "locationPathname p = (p = [] \<or> prefix ''/'' p)"

fun browserEvent :: "Event \<Rightarrow> bool" where
  "browserEvent (PopState pathname) = locationPathname pathname"
| "browserEvent _ = True"

section \<open>Section Dispatcher (App.tsx, lines 248-350)\<close>

text \<open>
  Rendered output as a tree of elements and text; the \<open>className\<close> attributes carry
  styling only and are left out. \<open>{v && <e>...</e>}\<close> contributes the element when \<open>v\<close>
  is a non-empty string and nothing visible when \<open>v\<close> is \<open>undefined\<close> or empty.
\<close>

datatype Node = Element string "Node list" | Text string

definition whenTruthy :: "string option \<Rightarrow> (string \<Rightarrow> Node) \<Rightarrow> Node list" where
  "whenTruthy v f = (case v of None \<Rightarrow> [] | Some s \<Rightarrow> if s = [] then [] else [f s])"

definition nullish :: "string option \<Rightarrow> string \<Rightarrow> string" where
  \<comment> \<open>\<open>v ?? d\<close>\<close>
  "nullish v d = (case v of None \<Rightarrow> d | Some s \<Rightarrow> s)"

definition Hero :: "string \<Rightarrow> string \<Rightarrow> Node" where
  "Hero h b = Element ''section'' [Element ''h1'' [Text h], Element ''p'' [Text b]]"

definition TextBlock :: "string option \<Rightarrow> string option \<Rightarrow> Node" where
  "TextBlock h b =
     Element ''section''
       (whenTruthy h (\<lambda>s. Element ''h2'' [Text s]) @ whenTruthy b (\<lambda>s. Element ''p'' [Text s]))"

definition ImageBlock :: "string option \<Rightarrow> string option \<Rightarrow> Node" where
  "ImageBlock h b =
     Element ''section''
       (whenTruthy h (\<lambda>s. Element ''h2'' [Text s]) @ whenTruthy b (\<lambda>s. Element ''p'' [Text s])
        @ [Element ''div'' [Text ''Image placeholder'']])"

definition GenericSection :: "string \<Rightarrow> string option \<Rightarrow> string option \<Rightarrow> Node" where
  "GenericSection t h b =
     Element ''section''
       (Element ''div'' [Text t]
        # whenTruthy h (\<lambda>s. Element ''h2'' [Text s]) @ whenTruthy b (\<lambda>s. Element ''p'' [Text s]))"

text \<open>The \<open>switch\<close> compares with \<open>===\<close>; \<open>None\<close> is the \<open>null\<close> of the default case.\<close>

definition renderSection :: "ManifestSection \<Rightarrow> Node option" where
  "renderSection s =
     (if type s = ''hero'' then Some (Hero (nullish (heading s) []) (nullish (body s) []))
      else if type s = ''text-block'' \<or> type s = ''content-block''
        then Some (TextBlock (heading s) (body s))
      else if type s = ''image-block'' then Some (ImageBlock (heading s) (body s))
      else if type s = ''profile-row'' \<or> type s = ''testimonial'' \<or> type s = ''faq''
              \<or> type s = ''contact-form''
        then Some (GenericSection (type s) (heading s) (body s))
      else None)"

definition SectionRenderer :: "ManifestSection \<Rightarrow> Node option" where
  "SectionRenderer s = renderSection s"

section \<open>Page Composer and the rendering of App (App.tsx, lines 114-158)\<close>

text \<open>
  \<open>pages.find(...) || pages[0]\<close>: a page object is truthy, so the right operand is taken
  exactly when \<open>find\<close> gives \<open>undefined\<close>; \<open>pages[0]\<close> of an empty array is \<open>undefined\<close>.
  \<open>data.manifest.pages || []\<close> is the array itself, an array being truthy.
\<close>

definition hasPages :: "ManifestPage list \<Rightarrow> bool" where
  "hasPages ps = (length ps > 0)"

definition currentPage :: "ManifestPage list \<Rightarrow> string \<Rightarrow> ManifestPage option" where
  "currentPage ps path =
     (if hasPages ps
      then (case find (\<lambda>page. slugToPath (page_slug page) = path) ps of
              Some page \<Rightarrow> Some page
            | None \<Rightarrow> (case ps of [] \<Rightarrow> None | first # _ \<Rightarrow> Some first))
      else None)"

datatype Children = Sections "Node option list" | PageNotFound | NoPagesDefined

definition children :: "ManifestPage list \<Rightarrow> string \<Rightarrow> Children" where
  "children ps path =
     (case currentPage ps path of
        Some page \<Rightarrow> Sections (map SectionRenderer (sections page))
      | None \<Rightarrow> if hasPages ps then PageNotFound else NoPagesDefined)"


record LayoutProps =
  navLinks :: "ManifestNavLink list option"
  layoutFooter :: "ManifestFooter option"
  siteName :: string
  layoutPath :: string
  layoutChildren :: Children



section \<open>Document metadata effect (App.tsx, lines 84-104)\<close>

text \<open>
  The document as far as the effect touches it: its title and its \<open>meta\<close> elements in
  document order. \<open>querySelector\<close> gives the first element that matches, here as its
  position; \<open>appendChild\<close> puts the new element last.
\<close>

record MetaElement =
  name :: string
  content :: string

record Document =
  docTitle :: string
  metas :: "MetaElement list"

fun querySelector :: "string \<Rightarrow> MetaElement list \<Rightarrow> nat option" where
  "querySelector n [] = None"
| "querySelector n (m # ms) =
     (if name m = n then Some 0 else map_option Suc (querySelector n ms))"

definition setContent :: "nat \<Rightarrow> string \<Rightarrow> MetaElement list \<Rightarrow> MetaElement list" where
  "setContent i d ms = (if i < length ms then ms[i := (ms ! i)\<lparr>content := d\<rparr>] else ms)"

definition metadataEffect :: "Env \<Rightarrow> ManifestResponse option \<Rightarrow> Document \<Rightarrow> Document" where
  "metadataEffect env dat doc =
     (case dat of
        None \<Rightarrow> doc
      | Some d \<Rightarrow>
          (let siteName = opt_or_else (siteNameEnv env) (business_name d);
               title = opt_or_else (page_title d) siteName;
               description = meta_description d;
               doc1 = doc\<lparr>docTitle := title\<rparr>
           in if truthy description
              then (case querySelector ''description'' (metas doc1) of
                      None \<Rightarrow>
                        doc1\<lparr>metas := setContent (length (metas doc1)) (nullish description [])
                                        (metas doc1 @ [\<lparr>name = ''description'', content = []\<rparr>])\<rparr>
                    | Some i \<Rightarrow>
                        doc1\<lparr>metas := setContent i (nullish description []) (metas doc1)\<rparr>)
              else doc1))"

text \<open>
  The effect runs again whenever \<open>data\<close> is replaced; \<open>loads\<close> is the document after the
  manifests of the list have been loaded one after the other.
\<close>

fun loads :: "Env \<Rightarrow> ManifestResponse list \<Rightarrow> Document \<Rightarrow> Document" where
  "loads env [] doc = doc"
| "loads env (d # ds) doc = loads env ds (metadataEffect env (Some d) doc)"

definition descriptionCount :: "Document \<Rightarrow> nat" where
  "descriptionCount doc = length (filter (\<lambda>m. name m = ''description'') (metas doc))"

section \<open>Sample inputs\<close>

definition homePage :: ManifestPage where
  "homePage = \<lparr>page_slug = ''home'', title = ''Home'',
     sections = [\<lparr>type = ''hero'', heading = Some ''Welcome'', body = Some ''Hi''\<rparr>]\<rparr>"

definition aboutPage :: ManifestPage where
  "aboutPage = \<lparr>page_slug = ''about'', title = ''About'',
     sections = [\<lparr>type = ''text-block'', heading = Some ''About us'', body = None\<rparr>]\<rparr>"

definition sampleManifest :: ManifestResponse where
  "sampleManifest =
     \<lparr>manifest_id = 1, business_name = ''Acme'', page_title = Some ''Acme Home'',
      meta_description = Some ''We build things'', cta = None,
      manifest = \<lparr>nav = Some (Some [\<lparr>label = ''About'', slug = ''about''\<rparr>]),
                  footer = None, pages = [homePage, aboutPage]\<rparr>\<rparr>"

definition sampleEnv :: Env where
  "sampleEnv = \<lparr>manifestUrl = Some ''/manifest.json'', siteNameEnv = None\<rparr>"

definition emptyDocument :: Document where
  "emptyDocument = \<lparr>docTitle = ''Vite App'', metas = []\<rparr>"

text \<open>
  A sample of the browser's decision on \<open>pushState\<close>, for a document served over http
  from a host other than \<open>x\<close>: a URL that begins with two slashes names another host and
  is refused. It is used at \<open>//x\<close>, at \<open>/\<close> and at \<open>/about\<close> only.
\<close>

definition sampleSameOrigin :: "string \<Rightarrow> bool" where
  "sampleSameOrigin url = (\<not> prefix ''//'' url)"

definition noDescriptionManifest :: ManifestResponse where
  "noDescriptionManifest = sampleManifest\<lparr>page_title := None, meta_description := Some []\<rparr>"

definition describedDocument :: Document where
  "describedDocument =
     \<lparr>docTitle = ''Vite App'',
      metas = [\<lparr>name = ''viewport'', content = ''width=device-width''\<rparr>,
               \<lparr>name = ''description'', content = ''Old text''\<rparr>]\<rparr>"

section \<open>Notions of the specification\<close>

text \<open>
  These definitions follow the words of the specification, not the code; the theorems
  below compare the code with them. \<open>texts\<close> is the visible text of a rendered tree in
  document order. \<open>shown\<close> is what an optional field contributes to it: nothing when the
  field is absent (or empty), its value otherwise. \<open>spec_okStatus\<close> is a 2xx status code.
  \<open>spec_effectiveSiteName\<close> is the configured override if set, else the business name;
  \<open>spec_title\<close> is the page title when present, else the effective site name.
\<close>

fun texts :: "Node \<Rightarrow> string list" where
  "texts (Text s) = [s]"
| "texts (Element t ks) = concat (map texts ks)"

definition shown :: "string option \<Rightarrow> string list" where
  "shown v = (case v of None \<Rightarrow> [] | Some s \<Rightarrow> if s = [] then [] else [s])"


definition spec_effectiveSiteName :: "Env \<Rightarrow> ManifestResponse \<Rightarrow> string" where
  "spec_effectiveSiteName env d =
     (case siteNameEnv env of
        None \<Rightarrow> business_name d
      | Some n \<Rightarrow> if n = [] then business_name d else n)"

definition spec_title :: "Env \<Rightarrow> ManifestResponse \<Rightarrow> string" where
  "spec_title env d =
     (case page_title d of
        None \<Rightarrow> spec_effectiveSiteName env d
      | Some t \<Rightarrow> if t = [] then spec_effectiveSiteName env d else t)"

section \<open>Properties of slugToPath\<close>

lemma slugToPath_starts_with_slash: "prefix ''/'' (slugToPath s)"
  by (simp add: slugToPath_def)

text \<open>
  Claim C3, as stated: for every slug \<open>s\<close>, \<open>slugToPath s\<close> starts with a slash and does
  not start with two. The second half fails: only one leading slash is stripped, so the
  slug \<open>//about\<close> is mapped to \<open>//about\<close>.
\<close>

theorem slugToPath_double_slash_counterexample:
  "\<not> (prefix ''/'' (slugToPath ''//about'') \<and> \<not> prefix ''//'' (slugToPath ''//about''))"
  by (simp add: slugToPath_def replace_leading_slash_def)

text \<open>
  Claim C3, amended: for every slug \<open>s\<close>, \<open>slugToPath s\<close> starts with a slash, and it
  starts with two slashes exactly when the slug itself starts with two slashes; so a slug
  without a doubled leading slash gives a path without one.
\<close>

theorem slugToPath_leading_slashes:
  "prefix ''/'' (slugToPath s) \<and>
   (prefix ''//'' (slugToPath s) \<longleftrightarrow> prefix ''//'' s)"
proof (cases s)
  case Nil
  then show ?thesis by (simp add: slugToPath_def)
next
  case (Cons c t)
  show ?thesis
  proof (cases "c = CHR ''/''")
    case True
    with Cons show ?thesis
      by (cases t) (auto simp: slugToPath_def replace_leading_slash_def)
  next
    case False
    with Cons show ?thesis
      by (auto simp: slugToPath_def replace_leading_slash_def)
  qed
qed

theorem slugToPath_leading_slashes_witness:
  "prefix ''/'' (slugToPath ''/about'') \<and> \<not> prefix ''//'' (slugToPath ''/about'')"
  using slugToPath_leading_slashes [of "''/about''"] by simp

text \<open>
  Claim C4: \<open>slugToPath\<close> is a function of its argument alone; on the empty slug, on
  \<open>/\<close> and on \<open>home\<close> it is \<open>/\<close>; on every other slug it is a slash followed by the slug
  without its first character when that is a slash, and by the whole slug otherwise. In
  particular \<open>about\<close> and \<open>/about\<close> both give \<open>/about\<close>.
\<close>

theorem slugToPath_rules:
  "(s = [] \<or> s = ''/'' \<or> s = ''home'' \<longrightarrow> slugToPath s = ''/'') \<and>
   (s \<noteq> [] \<and> s \<noteq> ''/'' \<and> s \<noteq> ''home'' \<longrightarrow>
      (prefix ''/'' s \<longrightarrow> slugToPath s = ''/'' @ drop 1 s) \<and>
      (\<not> prefix ''/'' s \<longrightarrow> slugToPath s = ''/'' @ s)) \<and>
   slugToPath ''about'' = ''/about'' \<and>
   slugToPath ''/about'' = ''/about''"
proof -
  have special: "s = [] \<or> s = ''/'' \<or> s = ''home'' \<longrightarrow> slugToPath s = ''/''"
    by (auto simp: slugToPath_def)
  have other: "s \<noteq> [] \<and> s \<noteq> ''/'' \<and> s \<noteq> ''home'' \<longrightarrow>
      (prefix ''/'' s \<longrightarrow> slugToPath s = ''/'' @ drop 1 s) \<and>
      (\<not> prefix ''/'' s \<longrightarrow> slugToPath s = ''/'' @ s)"
    by (cases s) (auto simp: slugToPath_def replace_leading_slash_def)
  have ex1: "slugToPath ''about'' = ''/about''"
    by (simp add: slugToPath_def replace_leading_slash_def)
  have ex2: "slugToPath ''/about'' = ''/about''"
    by (simp add: slugToPath_def replace_leading_slash_def)
  from special other ex1 ex2 show ?thesis by blast
qed

theorem slugToPath_rules_witness:
  "slugToPath ''home'' = ''/'' \<and> slugToPath ''/team/'' = ''/team/'' \<and>
   slugToPath ''contact'' = ''/contact''"
  using slugToPath_rules [of "''home''"] slugToPath_rules [of "''/team/''"]
    slugToPath_rules [of "''contact''"]
  by simp

section \<open>Properties of navigation\<close>

text \<open>
  Claim C5, as stated: for every state and every path, \<open>navigate\<close> with a normalised
  path different from the current one pushes one history entry and sets the current path.
  This fails for a path the browser refuses: \<open>//x\<close>, which a link with the slug \<open>//x\<close>
  requests, names another host, \<open>pushState\<close> throws, and neither an entry is added nor
  the current path set.
\<close>

theorem handleNavigate_refused_counterexample:
  "\<not> (or_else ''//x'' ''/'' \<noteq> currentPath (initialState ''/'' [''/'']) \<longrightarrow>
        handleNavigate sampleSameOrigin ''//x'' (initialState ''/'' [''/'']) =
          Inr ((initialState ''/'' [''/''])\<lparr>history := [''/'', ''//x''], currentPath := ''//x''\<rparr>))"
  by (simp add: handleNavigate_def pushState_def sampleSameOrigin_def initialState_def
      or_else_def Let_def)

text \<open>
  Claim C5, amended: for every state and every path, \<open>navigate\<close> with a requested path
  whose normalised form is the current path leaves the state as it is, history included,
  and makes no call to the browser. With a different normalised path that the browser
  accepts, it adds exactly one entry, that path, at the end of the history and makes it
  the current path; the loaded data and the fetch status are kept, so the view is not
  started afresh. With a different normalised path that the browser refuses, the handler
  ends with the browser's exception and the state, history included, is as before.
\<close>

theorem handleNavigate_effect:
  "(or_else path ''/'' = currentPath st \<longrightarrow> handleNavigate sameOrigin path st = Inr st) \<and>
   (or_else path ''/'' \<noteq> currentPath st \<and> sameOrigin (or_else path ''/'') \<longrightarrow>
      (\<exists>st'. handleNavigate sameOrigin path st = Inr st' \<and>
         currentPath st' = or_else path ''/'' \<and>
         history st' = history st @ [or_else path ''/''] \<and>
         length (history st') = Suc (length (history st)) \<and>
         data st' = data st \<and> isLoading st' = isLoading st \<and> error st' = error st)) \<and>
   (or_else path ''/'' \<noteq> currentPath st \<and> \<not> sameOrigin (or_else path ''/'') \<longrightarrow>
      handleNavigate sameOrigin path st = Inl SecurityError \<and>
      afterHandler st (handleNavigate sameOrigin path st) = st)"
  by (simp add: handleNavigate_def pushState_def afterHandler_def Let_def)

theorem handleNavigate_effect_witness:
  "handleNavigate sampleSameOrigin ''/about'' (initialState ''/about'' [''/'', ''/about''])
     = Inr (initialState ''/about'' [''/'', ''/about'']) \<and>
   sampleSameOrigin ''/about'' \<and>
   map_sum id currentPath (handleNavigate sampleSameOrigin ''/about'' (initialState ''/'' [''/'']))
     = Inr ''/about'' \<and>
   map_sum id history (handleNavigate sampleSameOrigin ''/about'' (initialState ''/'' [''/'']))
     = Inr [''/'', ''/about''] \<and>
   \<not> sampleSameOrigin ''//x'' \<and>
   handleNavigate sampleSameOrigin ''//x'' (initialState ''/'' [''/'']) = Inl SecurityError"
proof -
  have a: "sampleSameOrigin ''/about''" "\<not> sampleSameOrigin ''//x''"
    by (simp_all add: sampleSameOrigin_def)
  from a
    handleNavigate_effect [of "''/about''" "initialState ''/about'' [''/'', ''/about'']"
      sampleSameOrigin]
    handleNavigate_effect [of "''/about''" "initialState ''/'' [''/'']" sampleSameOrigin]
    handleNavigate_effect [of "''//x''" "initialState ''/'' [''/'']" sampleSameOrigin]
  show ?thesis
    by (auto simp: initialState_def or_else_def)
qed

lemma handleNavigate_slash:
  "prefix ''/'' path \<Longrightarrow> prefix ''/'' (currentPath st) \<Longrightarrow>
   prefix ''/'' (currentPath (afterHandler st (handleNavigate sameOrigin path st)))"
  by (auto simp: handleNavigate_def pushState_def afterHandler_def Let_def or_else_def)

lemma or_else_slash: "locationPathname p \<Longrightarrow> prefix ''/'' (or_else p ''/'')"
  by (auto simp: locationPathname_def or_else_def)

lemma fetchEffect_currentPath: "currentPath (fetchEffect env r st) = currentPath st"
  by (cases r) (auto simp: fetchEffect_def fetchSettle_def fetchStart_def split: option.splits)

lemma step_slash:
  "browserEvent e \<Longrightarrow> prefix ''/'' (currentPath st) \<Longrightarrow>
   prefix ''/'' (currentPath (step sameOrigin env e st))"
  by (cases e)
    (simp_all add: fetchEffect_currentPath handleClick_def handleNavigate_slash
      slugToPath_starts_with_slash handlePopState_def or_else_slash)

lemma run_slash:
  "\<forall>e\<in>set es. browserEvent e \<Longrightarrow> prefix ''/'' (currentPath st) \<Longrightarrow>
   prefix ''/'' (currentPath (run sameOrigin env es st))"
  by (induction es arbitrary: st) (simp_all add: step_slash)

text \<open>
  Claim C9: in every state the view reaches (created from the browser location, then
  any sequence of clicks on the site name, on navigation and footer links, of back and
  forward events, and of the fetch settling) the current path is non-empty and begins
  with a slash. The path names come from the browser, which reports the path of a
  hierarchical URL: empty or beginning with a slash.
\<close>

theorem currentPath_absolute:
  assumes "locationPathname p" and "\<forall>e\<in>set es. browserEvent e"
  shows "currentPath (run sameOrigin env es (initialState p h)) \<noteq> [] \<and>
         prefix ''/'' (currentPath (run sameOrigin env es (initialState p h)))"
proof -
  have "prefix ''/'' (currentPath (initialState p h))"
    using assms(1) by (simp add: initialState_def or_else_slash)
  with assms(2) have "prefix ''/'' (currentPath (run sameOrigin env es (initialState p h)))"
    by (rule run_slash)
  then show ?thesis by auto
qed

theorem currentPath_absolute_witness:
  "locationPathname [] \<and>
   list_all browserEvent
     [ClickNavLink ''about'', PopState [], ClickFooterLink ''//x'', ClickSiteName] \<and>
   currentPath (run sampleSameOrigin sampleEnv
      [ClickNavLink ''about'', PopState [], ClickFooterLink ''//x'', ClickSiteName]
      (initialState [] [])) \<noteq> [] \<and>
   prefix ''/'' (currentPath (run sampleSameOrigin sampleEnv
      [ClickNavLink ''about'', PopState [], ClickFooterLink ''//x'', ClickSiteName]
      (initialState [] [])))"
proof -
  have a: "locationPathname []" by (simp add: locationPathname_def)
  have b: "list_all browserEvent
     [ClickNavLink ''about'', PopState [], ClickFooterLink ''//x'', ClickSiteName]"
    by (simp add: locationPathname_def)
  then have c: "\<forall>e\<in>set [ClickNavLink ''about'', PopState [], ClickFooterLink ''//x'',
      ClickSiteName]. browserEvent e"
    by (simp only: list_all_iff)
  from currentPath_absolute [OF a c] a b show ?thesis by blast
qed

section \<open>Properties of the Manifest Client\<close>





section \<open>Properties of the Page Composer\<close>

lemma children_never_PageNotFound: "children ps path \<noteq> PageNotFound"
  by (cases ps) (auto simp: children_def currentPage_def hasPages_def split: option.splits)

text \<open>
  Claim C1 says that a path matching no page, while pages exist, is answered with
  "page not found". Evaluated on the page list holding only the home page and the path
  \<open>/missing\<close>, which the home page does not match, the composer renders the sections of
  the home page instead; and "page not found" differs from "no pages defined".
\<close>

theorem children_missing_path:
  "slugToPath (page_slug homePage) \<noteq> ''/missing'' \<and>
   children [homePage] ''/missing'' =
     Sections [Some (Element ''section''
                 [Element ''h1'' [Text ''Welcome''], Element ''p'' [Text ''Hi'']])] \<and>
   children [homePage] ''/missing'' \<noteq> PageNotFound \<and>
   PageNotFound \<noteq> NoPagesDefined"
  by (simp add: children_def currentPage_def hasPages_def homePage_def slugToPath_def
      replace_leading_slash_def SectionRenderer_def renderSection_def Hero_def nullish_def)

text \<open>
  Claim C6: for a non-empty page list and any current path, the composer selects the
  first page in list order whose slug, converted by \<open>slugToPath\<close>, equals the current
  path (no earlier page matches), and the first page of the list when no page matches;
  with the pages home and about and the path \<open>/about\<close> it selects the about page.
\<close>

theorem currentPage_first_match:
  assumes "ps \<noteq> []"
  shows "((\<exists>p\<in>set ps. slugToPath (page_slug p) = path) \<longrightarrow>
           (\<exists>i<length ps. currentPage ps path = Some (ps ! i) \<and>
               slugToPath (page_slug (ps ! i)) = path \<and>
               (\<forall>j<i. slugToPath (page_slug (ps ! j)) \<noteq> path))) \<and>
         ((\<forall>p\<in>set ps. slugToPath (page_slug p) \<noteq> path) \<longrightarrow>
            currentPage ps path = Some (ps ! 0)) \<and>
         currentPage [homePage, aboutPage] ''/about'' = Some aboutPage"
proof (intro conjI impI)
  let ?P = "\<lambda>page. slugToPath (page_slug page) = path"
  assume "\<exists>p\<in>set ps. slugToPath (page_slug p) = path"
  then have "find ?P ps \<noteq> None" by (auto simp: find_None_iff)
  then obtain x where x: "find ?P ps = Some x" by blast
  then obtain i where i: "i < length ps" "?P (ps ! i)" "x = ps ! i" "\<forall>j<i. \<not> ?P (ps ! j)"
    unfolding find_Some_iff by blast
  from assms x i(3) have "currentPage ps path = Some (ps ! i)"
    by (simp add: currentPage_def hasPages_def)
  with i show "\<exists>i<length ps. currentPage ps path = Some (ps ! i) \<and>
               slugToPath (page_slug (ps ! i)) = path \<and>
               (\<forall>j<i. slugToPath (page_slug (ps ! j)) \<noteq> path)" by blast
next
  assume "\<forall>p\<in>set ps. slugToPath (page_slug p) \<noteq> path"
  then have "find (\<lambda>page. slugToPath (page_slug page) = path) ps = None"
    by (simp add: find_None_iff)
  with assms show "currentPage ps path = Some (ps ! 0)"
    by (cases ps) (simp_all add: currentPage_def hasPages_def)
next
  show "currentPage [homePage, aboutPage] ''/about'' = Some aboutPage"
    by (simp add: currentPage_def hasPages_def homePage_def aboutPage_def slugToPath_def
        replace_leading_slash_def)
qed

theorem currentPage_first_match_witness:
  "[homePage, aboutPage] \<noteq> [] \<and>
   currentPage [homePage, aboutPage] ''/missing'' = Some homePage \<and>
   (\<exists>i<length [homePage, aboutPage].
      currentPage [homePage, aboutPage] ''/about'' = Some ([homePage, aboutPage] ! i) \<and>
      (\<forall>j<i. slugToPath (page_slug ([homePage, aboutPage] ! j)) \<noteq> ''/about''))"
proof -
  have ne: "[homePage, aboutPage] \<noteq> []" by simp
  have a: "slugToPath (page_slug homePage) = ''/''"
    "slugToPath (page_slug aboutPage) = ''/about''"
    by (simp_all add: homePage_def aboutPage_def slugToPath_def replace_leading_slash_def)
  from currentPage_first_match [OF ne, of "''/missing''"] a
  have 1: "currentPage [homePage, aboutPage] ''/missing'' = Some homePage"
    by simp
  from currentPage_first_match [OF ne, of "''/about''"] a
  have 2: "\<exists>i<length [homePage, aboutPage].
      currentPage [homePage, aboutPage] ''/about'' = Some ([homePage, aboutPage] ! i) \<and>
      (\<forall>j<i. slugToPath (page_slug ([homePage, aboutPage] ! j)) \<noteq> ''/about'')"
    by auto
  from ne 1 2 show ?thesis by blast
qed

section \<open>Properties of the Section Dispatcher\<close>

lemma texts_whenTruthy: "concat (map texts (whenTruthy v (\<lambda>s. Element t [Text s]))) = shown v"
  by (simp add: whenTruthy_def shown_def split: option.splits)

text \<open>
  Claim C7: the rendering rule is chosen by equality of the section's type with a fixed
  string. A \<open>hero\<close> section is the hero block of its heading and body, the empty string
  standing for an absent field, and shows exactly these two texts. A \<open>text-block\<close>,
  \<open>content-block\<close> or \<open>image-block\<close> section shows its heading and body where present
  and leaves an absent field out (the image block adds its placeholder text). A
  \<open>profile-row\<close>, \<open>testimonial\<close>, \<open>faq\<close> or \<open>contact-form\<close> section shows the type tag
  itself, then heading and body where present. Any other type renders nothing.
\<close>

theorem renderSection_dispatch:
  "(type s = ''hero'' \<longrightarrow>
      renderSection s = Some (Hero (case heading s of None \<Rightarrow> [] | Some h \<Rightarrow> h)
                                   (case body s of None \<Rightarrow> [] | Some b \<Rightarrow> b)) \<and>
      map_option texts (renderSection s) =
        Some [case heading s of None \<Rightarrow> [] | Some h \<Rightarrow> h,
              case body s of None \<Rightarrow> [] | Some b \<Rightarrow> b]) \<and>
   (type s = ''text-block'' \<or> type s = ''content-block'' \<longrightarrow>
      map_option texts (renderSection s) = Some (shown (heading s) @ shown (body s))) \<and>
   (type s = ''image-block'' \<longrightarrow>
      map_option texts (renderSection s) =
        Some (shown (heading s) @ shown (body s) @ [''Image placeholder''])) \<and>
   (type s = ''profile-row'' \<or> type s = ''testimonial'' \<or> type s = ''faq''
      \<or> type s = ''contact-form'' \<longrightarrow>
      map_option texts (renderSection s) = Some (type s # shown (heading s) @ shown (body s))) \<and>
   (type s \<notin> {''hero'', ''text-block'', ''content-block'', ''image-block'', ''profile-row'',
               ''testimonial'', ''faq'', ''contact-form''} \<longrightarrow> renderSection s = None)"
  by (simp add: renderSection_def Hero_def TextBlock_def ImageBlock_def GenericSection_def
      nullish_def texts_whenTruthy)

theorem renderSection_dispatch_witness:
  "map_option texts (renderSection \<lparr>type = ''hero'', heading = Some ''Welcome'', body = None\<rparr>)
     = Some [''Welcome'', []] \<and>
   map_option texts (renderSection \<lparr>type = ''text-block'', heading = None, body = Some ''Hi''\<rparr>)
     = Some [''Hi''] \<and>
   map_option texts (renderSection \<lparr>type = ''image-block'', heading = None, body = None\<rparr>)
     = Some [''Image placeholder''] \<and>
   map_option texts (renderSection \<lparr>type = ''faq'', heading = Some ''Q'', body = None\<rparr>)
     = Some [''faq'', ''Q''] \<and>
   renderSection \<lparr>type = ''unknown-future-type'', heading = Some ''x'', body = None\<rparr> = None \<and>
   renderSection \<lparr>type = ''Hero'', heading = Some ''x'', body = None\<rparr> = None"
  using renderSection_dispatch [of "\<lparr>type = ''hero'', heading = Some ''Welcome'', body = None\<rparr>"]
    renderSection_dispatch [of "\<lparr>type = ''text-block'', heading = None, body = Some ''Hi''\<rparr>"]
    renderSection_dispatch [of "\<lparr>type = ''image-block'', heading = None, body = None\<rparr>"]
    renderSection_dispatch [of "\<lparr>type = ''faq'', heading = Some ''Q'', body = None\<rparr>"]
    renderSection_dispatch
      [of "\<lparr>type = ''unknown-future-type'', heading = Some ''x'', body = None\<rparr>"]
    renderSection_dispatch [of "\<lparr>type = ''Hero'', heading = Some ''x'', body = None\<rparr>"]
  by (auto simp: shown_def)

section \<open>Properties of the document metadata effect\<close>

lemma opt_or_else_spec:
  "opt_or_else (page_title d) (opt_or_else (siteNameEnv env) (business_name d)) = spec_title env d"
  by (simp add: opt_or_else_def or_else_def spec_title_def spec_effectiveSiteName_def
      split: option.splits)

lemma querySelector_None: "querySelector n ms = None \<longleftrightarrow> (\<forall>m\<in>set ms. name m \<noteq> n)"
  by (induction ms) auto

lemma querySelector_Some:
  "querySelector n ms = Some i \<Longrightarrow> i < length ms \<and> name (ms ! i) = n"
proof (induction ms arbitrary: i)
  case Nil
  then show ?case by simp
next
  case (Cons m ms)
  then show ?case by (auto split: if_splits)
qed

lemma querySelector_names:
  "map name xs = map name ys \<Longrightarrow> querySelector n xs = querySelector n ys"
proof (induction xs arbitrary: ys)
  case Nil
  then show ?case by simp
next
  case (Cons x xs)
  then obtain y ys' where ys: "ys = y # ys'" by (cases ys) auto
  with Cons.prems have "name x = name y" "map name xs = map name ys'" by simp_all
  with Cons.IH [of ys'] ys show ?case by simp
qed

lemma querySelector_append_new:
  "querySelector n ms = None \<Longrightarrow> name m = n \<Longrightarrow> querySelector n (ms @ [m]) = Some (length ms)"
  by (induction ms) (auto split: if_splits)

lemma setContent_names: "map name (setContent i d ms) = map name ms"
  by (simp add: setContent_def map_update list_update_same_conv)

lemma setContent_length: "length (setContent i d ms) = length ms"
  by (simp add: setContent_def)

lemma setContent_content: "i < length ms \<Longrightarrow> content (setContent i d ms ! i) = d"
  by (simp add: setContent_def)

lemma count_by_names:
  "length (filter (\<lambda>m. name m = n) ms) = length (filter (\<lambda>x. x = n) (map name ms))"
  by (simp add: filter_map o_def)

lemma setContent_count:
  "length (filter (\<lambda>m. name m = n) (setContent i d ms)) = length (filter (\<lambda>m. name m = n) ms)"
  by (simp add: count_by_names setContent_names)

lemma querySelector_None_count:
  "querySelector n ms = None \<longleftrightarrow> length (filter (\<lambda>m. name m = n) ms) = 0"
  by (simp add: querySelector_None filter_empty_conv)

lemma metadataEffect_title:
  "docTitle (metadataEffect env (Some d) doc) = spec_title env d"
  by (simp add: metadataEffect_def Let_def opt_or_else_spec split: option.splits)

lemma metadataEffect_count:
  "descriptionCount (metadataEffect env (Some d) doc) =
     (if truthy (meta_description d) \<and> descriptionCount doc = 0 then 1 else descriptionCount doc)"
proof (cases "truthy (meta_description d)")
  case False
  then show ?thesis by (simp add: metadataEffect_def Let_def descriptionCount_def)
next
  case True
  show ?thesis
  proof (cases "querySelector ''description'' (metas doc)")
    case None
    then have "descriptionCount doc = 0"
      by (simp add: descriptionCount_def querySelector_None_count)
    with True None show ?thesis
      by (simp add: metadataEffect_def Let_def descriptionCount_def setContent_count)
  next
    case (Some i)
    then have "descriptionCount doc \<noteq> 0"
      using querySelector_None_count [of "''description''" "metas doc"]
      by (simp add: descriptionCount_def)
    with True Some show ?thesis
      by (simp add: metadataEffect_def Let_def descriptionCount_def setContent_count)
  qed
qed

lemma metadataEffect_content:
  assumes "truthy (meta_description d)"
  shows "\<exists>i. querySelector ''description'' (metas (metadataEffect env (Some d) doc)) = Some i \<and>
             content (metas (metadataEffect env (Some d) doc) ! i) = nullish (meta_description d) []"
proof (cases "querySelector ''description'' (metas doc)")
  case None
  let ?new = "\<lparr>name = ''description'', content = []\<rparr>"
  let ?ms = "setContent (length (metas doc)) (nullish (meta_description d) []) (metas doc @ [?new])"
  have ms: "metas (metadataEffect env (Some d) doc) = ?ms"
    using assms None by (simp add: metadataEffect_def Let_def)
  have "querySelector ''description'' ?ms = querySelector ''description'' (metas doc @ [?new])"
    by (rule querySelector_names) (rule setContent_names)
  also have "\<dots> = Some (length (metas doc))"
    using None by (simp add: querySelector_append_new)
  finally have q: "querySelector ''description'' ?ms = Some (length (metas doc))" .
  have c: "content (?ms ! length (metas doc)) = nullish (meta_description d) []"
    by (simp add: setContent_content)
  from ms q c show ?thesis by simp
next
  case (Some i)
  let ?ms = "setContent i (nullish (meta_description d) []) (metas doc)"
  have ms: "metas (metadataEffect env (Some d) doc) = ?ms"
    using assms Some by (simp add: metadataEffect_def Let_def)
  have q: "querySelector ''description'' ?ms = Some i"
    using Some querySelector_names [OF setContent_names, of "''description''" i _ "metas doc"]
    by simp
  from Some have "i < length (metas doc)" by (simp add: querySelector_Some)
  then have c: "content (?ms ! i) = nullish (meta_description d) []"
    by (simp add: setContent_content)
  from ms q c show ?thesis by simp
qed

lemma loads_snoc: "loads env (ds @ [d]) doc = metadataEffect env (Some d) (loads env ds doc)"
  by (induction ds arbitrary: doc) simp_all

lemma loads_count:
  "descriptionCount (loads env ds doc) =
     (if descriptionCount doc = 0 \<and> (\<exists>d\<in>set ds. truthy (meta_description d)) then 1
      else descriptionCount doc)"
proof (induction ds arbitrary: doc)
  case Nil
  then show ?case by simp
next
  case (Cons d ds)
  show ?case by (simp add: Cons.IH metadataEffect_count)
qed

lemma loads_last:
  assumes "ds \<noteq> []"
  shows "loads env ds doc = metadataEffect env (Some (last ds)) (loads env (butlast ds) doc)"
proof -
  from assms have "ds = butlast ds @ [last ds]" by simp
  then have "loads env ds doc = loads env (butlast ds @ [last ds]) doc" by simp
  then show ?thesis by (simp only: loads_snoc)
qed

text \<open>
  Claim C8, as stated: after repeated loads the title is the page title or else the
  effective site name, and exactly one description element exists. The second half fails
  for a manifest whose description is empty, loaded twice into a document without a
  description element: the title is set and no description element exists afterwards.
\<close>

theorem loads_description_counterexample:
  "\<not> (docTitle (loads sampleEnv [noDescriptionManifest, noDescriptionManifest] emptyDocument)
        = ''Acme'' \<and>
      descriptionCount (loads sampleEnv [noDescriptionManifest, noDescriptionManifest] emptyDocument)
        = 1)"
  by (simp add: metadataEffect_def Let_def noDescriptionManifest_def sampleManifest_def
      sampleEnv_def emptyDocument_def descriptionCount_def truthy_def opt_or_else_def or_else_def)

text \<open>
  Claim C8, amended: after one or more loads the document title is the page title of the
  manifest loaded last when that is present and non-empty, otherwise the effective site
  name (the override if set and non-empty, else the business name). The number of
  description elements becomes one when the document had none and some loaded manifest
  has a non-empty description, and is otherwise what it was: so exactly one exists
  whenever the document had at most one and some loaded description is non-empty, and
  none is ever duplicated. When the description loaded last is non-empty, it is the
  content of the first description element.
\<close>

theorem loads_title_and_description:
  assumes "ds \<noteq> []"
  shows "docTitle (loads env ds doc) = spec_title env (last ds) \<and>
         descriptionCount (loads env ds doc) =
           (if descriptionCount doc = 0 \<and> (\<exists>d\<in>set ds. truthy (meta_description d)) then 1
            else descriptionCount doc) \<and>
         ((\<exists>d\<in>set ds. truthy (meta_description d)) \<and> descriptionCount doc \<le> 1 \<longrightarrow>
            descriptionCount (loads env ds doc) = 1) \<and>
         (truthy (meta_description (last ds)) \<longrightarrow>
            (\<exists>i. querySelector ''description'' (metas (loads env ds doc)) = Some i \<and>
                 content (metas (loads env ds doc) ! i) = nullish (meta_description (last ds)) []))"
proof -
  have t: "docTitle (loads env ds doc) = spec_title env (last ds)"
    by (simp add: loads_last [OF assms] metadataEffect_title)
  have c: "descriptionCount (loads env ds doc) =
           (if descriptionCount doc = 0 \<and> (\<exists>d\<in>set ds. truthy (meta_description d)) then 1
            else descriptionCount doc)"
    by (rule loads_count)
  have one: "(\<exists>d\<in>set ds. truthy (meta_description d)) \<and> descriptionCount doc \<le> 1 \<longrightarrow>
            descriptionCount (loads env ds doc) = 1"
    unfolding c by auto
  have u: "truthy (meta_description (last ds)) \<longrightarrow>
            (\<exists>i. querySelector ''description'' (metas (loads env ds doc)) = Some i \<and>
                 content (metas (loads env ds doc) ! i) = nullish (meta_description (last ds)) [])"
    by (simp add: loads_last [OF assms] metadataEffect_content)
  from t c one u show ?thesis by blast
qed

theorem loads_title_and_description_witness:
  "[sampleManifest, sampleManifest, sampleManifest] \<noteq> [] \<and>
   docTitle (loads sampleEnv [sampleManifest, sampleManifest, sampleManifest] emptyDocument)
     = ''Acme Home'' \<and>
   descriptionCount (loads sampleEnv [sampleManifest, sampleManifest, sampleManifest] emptyDocument)
     = 1"
proof -
  have ne: "[sampleManifest, sampleManifest, sampleManifest] \<noteq> []" by simp
  have t: "truthy (meta_description sampleManifest)"
    by (simp add: sampleManifest_def truthy_def)
  have z: "descriptionCount emptyDocument = 0"
    by (simp add: descriptionCount_def emptyDocument_def)
  have e: "spec_title sampleEnv sampleManifest = ''Acme Home''"
    by (simp add: spec_title_def sampleManifest_def)
  from loads_title_and_description [OF ne, of sampleEnv emptyDocument] t z e ne
  show ?thesis by simp
qed

text \<open>
  Claim C10: when the loaded manifest's description is absent or the empty string, the
  effect sets the document title and leaves the list of meta elements exactly as it was:
  none is created and none is modified.
\<close>

theorem metadataEffect_without_description:
  assumes "meta_description d = None \<or> meta_description d = Some []"
  shows "docTitle (metadataEffect env (Some d) doc) = spec_title env d \<and>
         metas (metadataEffect env (Some d) doc) = metas doc \<and>
         metadataEffect env (Some d) doc = doc\<lparr>docTitle := spec_title env d\<rparr>"
proof -
  from assms have "\<not> truthy (meta_description d)" by (auto simp: truthy_def)
  then have "metadataEffect env (Some d) doc = doc\<lparr>docTitle := spec_title env d\<rparr>"
    by (simp add: metadataEffect_def Let_def opt_or_else_spec)
  then show ?thesis by simp
qed

theorem metadataEffect_without_description_witness:
  "(meta_description noDescriptionManifest = None \<or>
    meta_description noDescriptionManifest = Some []) \<and>
   docTitle (metadataEffect sampleEnv (Some noDescriptionManifest) describedDocument) = ''Acme'' \<and>
   metas (metadataEffect sampleEnv (Some noDescriptionManifest) describedDocument)
     = [\<lparr>name = ''viewport'', content = ''width=device-width''\<rparr>,
        \<lparr>name = ''description'', content = ''Old text''\<rparr>]"
proof -
  have h: "meta_description noDescriptionManifest = None \<or>
           meta_description noDescriptionManifest = Some []"
    by (simp add: noDescriptionManifest_def)
  have e: "spec_title sampleEnv noDescriptionManifest = ''Acme''"
    by (simp add: spec_title_def spec_effectiveSiteName_def noDescriptionManifest_def
        sampleManifest_def sampleEnv_def)
  from metadataEffect_without_description [OF h, of sampleEnv describedDocument] h e
  show ?thesis by (simp add: describedDocument_def)
qed

end
